theory Spec2Isabelle
  imports Main "HOL-Library.Word"
begin

section \<open>Values\<close>

text \<open>
  The Go code passes query arguments and query results around as \<open>interface{}\<close>.
  The dynamic types that occur are \<open>nil\<close>, \<open>int64\<close>, \<open>float64\<close>, \<open>string\<close> and
  \<open>[]byte\<close>. A \<open>float64\<close> is kept as its IEEE-754 binary64 bit pattern: no
  floating-point arithmetic is done anywhere in the code that is modelled.
\<close>

type_synonym int64 = "64 word"
type_synonym float64 = "64 word"

datatype Value =
    VNil
  | VInt64 int64
  | VFloat64 float64
  | VString string
  | VBytes "8 word list"

text \<open>A result row of \<open>QueryMultiRow\<close> is a Go \<open>map[string]interface{}\<close>.\<close>

type_synonym Row = "string \<rightharpoonup> Value"

text \<open>
  \<open>MetricResult.Value\<close> holds either the single value of \<open>QuerySingleValue\<close> or
  the row slice of \<open>QueryMultiRow\<close>.
\<close>

datatype ResultValue = Scalar Value | RowSet "Row list"

section \<open>models: ParamType, ParamDefinition, Metric, MetricResult\<close>

text \<open>\<open>type ParamType string\<close>: any string can be stored in it, three are valid.\<close>

type_synonym ParamType = string

definition ParamTypeString :: ParamType where
  "ParamTypeString = ''string''"

definition ParamTypeInt :: ParamType where
  "ParamTypeInt = ''int''"

definition ParamTypeFloat :: ParamType where
  "ParamTypeFloat = ''float''"

definition IsValid :: "ParamType \<Rightarrow> bool" where
  "IsValid pt = (pt = ParamTypeString \<or> pt = ParamTypeInt \<or> pt = ParamTypeFloat)"

text \<open>
  Isabelle records cannot share field names, so the \<open>Name\<close> field of
  \<open>ParamDefinition\<close> is \<open>ParamName\<close> and the one of \<open>MetricResult\<close> is
  \<open>ResultName\<close>.
\<close>

record ParamDefinition =
  ParamName :: string
  Type :: ParamType
  Required :: bool

record Metric =
  Name :: string
  Query :: string
  MultiRow :: bool
  Params :: "ParamDefinition list"

record MetricResult =
  ResultName :: string
  Value :: ResultValue

datatype ModelError =
    ErrParamNameEmpty
  | ErrInvalidParamType
  | ErrMetricNameEmpty
  | ErrMetricQueryEmpty

definition ParamDefinition_Validate :: "ParamDefinition \<Rightarrow> ModelError option" where
  "ParamDefinition_Validate pd =
     (if ParamName pd = [] then Some ErrParamNameEmpty
      else if \<not> IsValid (Type pd) then Some ErrInvalidParamType
      else None)"

text \<open>The loop of \<open>Metric.Validate\<close> over \<open>m.Params\<close>: the first error is returned.\<close>

fun Validate_params :: "ParamDefinition list \<Rightarrow> ModelError option" where
  "Validate_params [] = None"
| "Validate_params (param # rest) =
     (case ParamDefinition_Validate param of
        Some err \<Rightarrow> Some err
      | None \<Rightarrow> Validate_params rest)"

definition Validate :: "Metric \<Rightarrow> ModelError option" where
  "Validate m =
     (if Name m = [] then Some ErrMetricNameEmpty
      else if Query m = [] then Some ErrMetricQueryEmpty
      else Validate_params (Params m))"

section \<open>service: parameter conversion\<close>

text \<open>
  \<open>strconv.ParseInt(value, 10, 64)\<close> and \<open>strconv.ParseFloat(value, 64)\<close> belong
  to the Go standard library, not to the repository. They are a parameter of the
  model: a pair of functions that return the parsed number or a \<open>*NumError\<close>.
\<close>

datatype NumError = ErrSyntax | ErrRange

record strconv =
  ParseInt :: "string \<Rightarrow> NumError + int64"
  ParseFloat :: "string \<Rightarrow> NumError + float64"

datatype ConvError =
    InvalidInteger string NumError
  | InvalidFloat string NumError
  | UnsupportedType ParamType

definition convertParamValue :: "strconv \<Rightarrow> string \<Rightarrow> ParamType \<Rightarrow> ConvError + Value" where
  "convertParamValue sc value paramType =
     (if paramType = ParamTypeString then Inr (VString value)
      else if paramType = ParamTypeInt then
        (case ParseInt sc value of
           Inl err \<Rightarrow> Inl (InvalidInteger value err)
         | Inr n \<Rightarrow> Inr (VInt64 n))
      else if paramType = ParamTypeFloat then
        (case ParseFloat sc value of
           Inl err \<Rightarrow> Inl (InvalidFloat value err)
         | Inr f \<Rightarrow> Inr (VFloat64 f))
      else Inl (UnsupportedType paramType))"

section \<open>repository: the interface\<close>

text \<open>
  Of a \<open>context.Context\<close> only whether it is already done (cancelled or timed
  out) is kept. A \<open>Repository\<close> is the pair of query methods; a call may change
  the state \<open>'s\<close> behind the repository and returns an error \<open>'e\<close> or a result.
\<close>

record Context =
  isDone :: bool

record ('s, 'e) Repository =
  QuerySingleValue :: "Context \<Rightarrow> string \<Rightarrow> Value list \<Rightarrow> 's \<Rightarrow> ('e + Value) \<times> 's"
  QueryMultiRow :: "Context \<Rightarrow> string \<Rightarrow> Value list \<Rightarrow> 's \<Rightarrow> ('e + Row list) \<times> 's"

section \<open>service: MetricService\<close>

datatype 'e ServiceError =
    MetricNotFound string
  | RequiredParamMissing string string
  | ParamConversion string string ConvError
  | MetricFailed string 'e

record ('s, 'e) MetricService =
  repo :: "('s, 'e) Repository"
  metrics :: "string \<rightharpoonup> Metric"

text \<open>\<open>for _, m := range metricsList { metricsMap[m.Name] = m }\<close>\<close>

fun metricsMap_loop :: "(string \<rightharpoonup> Metric) \<Rightarrow> Metric list \<Rightarrow> (string \<rightharpoonup> Metric)" where
  "metricsMap_loop metricsMap [] = metricsMap"
| "metricsMap_loop metricsMap (m # rest) = metricsMap_loop (metricsMap(Name m \<mapsto> m)) rest"

definition NewMetricService :: "('s, 'e) Repository \<Rightarrow> Metric list \<Rightarrow> ('s, 'e) MetricService" where
  "NewMetricService r metricsList =
     \<lparr>repo = r, metrics = metricsMap_loop Map.empty metricsList\<rparr>"

text \<open>
  The loop of \<open>prepareParams\<close> over \<open>metric.Params\<close>. The source fills
  \<open>args[i]\<close> for \<open>i = 0, 1, ...\<close> in order and returns at the first error; the
  model builds the same slice front to back. A missing optional parameter gets the
  value \<open>""\<close> and is converted like a supplied one.
\<close>

fun prepareParams_loop ::
  "strconv \<Rightarrow> Metric \<Rightarrow> (string \<rightharpoonup> string) \<Rightarrow> ParamDefinition list \<Rightarrow> 'e ServiceError + Value list" where
  "prepareParams_loop sc metric params [] = Inr []"
| "prepareParams_loop sc metric params (paramDef # rest) =
     (let exists = (params (ParamName paramDef) \<noteq> None) in
      if Required paramDef \<and> \<not> exists
      then Inl (RequiredParamMissing (Name metric) (ParamName paramDef))
      else
        (let value = (case params (ParamName paramDef) of None \<Rightarrow> [] | Some v \<Rightarrow> v) in
         case convertParamValue sc value (Type paramDef) of
           Inl err \<Rightarrow> Inl (ParamConversion (Name metric) (ParamName paramDef) err)
         | Inr convertedValue \<Rightarrow>
             (case prepareParams_loop sc metric params rest of
                Inl e \<Rightarrow> Inl e
              | Inr args \<Rightarrow> Inr (convertedValue # args))))"

definition prepareParams ::
  "strconv \<Rightarrow> Metric \<Rightarrow> (string \<rightharpoonup> string) \<Rightarrow> 'e ServiceError + Value list" where
  "prepareParams sc metric params =
     (if length (Params metric) = 0 then Inr []
      else prepareParams_loop sc metric params (Params metric))"

definition GetMetric ::
  "strconv \<Rightarrow> ('s, 'e) MetricService \<Rightarrow> Context \<Rightarrow> string \<Rightarrow> (string \<rightharpoonup> string) \<Rightarrow> 's
     \<Rightarrow> ('e ServiceError + MetricResult list) \<times> 's" where
  "GetMetric sc ms ctx name params s =
     (case metrics ms name of
        None \<Rightarrow> (Inl (MetricNotFound name), s)
      | Some metric \<Rightarrow>
          (case prepareParams sc metric params of
             Inl err \<Rightarrow> (Inl err, s)
           | Inr args \<Rightarrow>
               if MultiRow metric then
                 (case QueryMultiRow (repo ms) ctx (Query metric) args s of
                    (Inl err, s') \<Rightarrow> (Inl (MetricFailed (Name metric) err), s')
                  | (Inr rows, s') \<Rightarrow>
                      (Inr [\<lparr>ResultName = Name metric, Value = RowSet rows\<rparr>], s'))
               else
                 (case QuerySingleValue (repo ms) ctx (Query metric) args s of
                    (Inl err, s') \<Rightarrow> (Inl (MetricFailed (Name metric) err), s')
                  | (Inr result, s') \<Rightarrow>
                      (Inr [\<lparr>ResultName = Name metric, Value = Scalar result\<rparr>], s'))))"

text \<open>
  \<open>GetMetrics\<close> starts one goroutine per index of \<open>names\<close> in an
  \<open>errgroup\<close> and waits for all of them. The group keeps the \<open>results\<close>
  slice, the first error handed to it (\<open>errOnce\<close>: later errors are dropped) and,
  in the model, the state behind the repository. The context of the group is done
  when the caller's context is done or an error has been recorded.

  The goroutines run concurrently; their effects are put in sequence by a schedule,
  the list of goroutine indices in the order in which their calls of
  \<open>GetMetric\<close> take effect. Goroutine \<open>i\<close> exists for \<open>i < len(names)\<close> only.
\<close>

record ('s, 'e) Group =
  results :: "MetricResult list"
  err :: "'e ServiceError option"
  store :: 's

definition egCtx :: "Context \<Rightarrow> ('s, 'e) Group \<Rightarrow> Context" where
  "egCtx ctx g = ctx\<lparr>isDone := isDone ctx \<or> err g \<noteq> None\<rparr>"

definition goroutine ::
  "strconv \<Rightarrow> ('s, 'e) MetricService \<Rightarrow> Context \<Rightarrow> string list \<Rightarrow> (string \<rightharpoonup> string)
     \<Rightarrow> ('s, 'e) Group \<Rightarrow> nat \<Rightarrow> ('s, 'e) Group" where
  "goroutine sc ms ctx names params g i =
     (if i < length names then
        (case GetMetric sc ms (egCtx ctx g) (names ! i) params (store g) of
           (Inl e, s') \<Rightarrow>
             g\<lparr>err := (case err g of None \<Rightarrow> Some e | Some first \<Rightarrow> Some first), store := s'\<rparr>
         | (Inr metricResults, s') \<Rightarrow>
             (if length metricResults > 0
              then g\<lparr>results := (results g)[i := hd metricResults], store := s'\<rparr>
              else g\<lparr>store := s'\<rparr>))
      else g)"

definition run_goroutines ::
  "strconv \<Rightarrow> ('s, 'e) MetricService \<Rightarrow> Context \<Rightarrow> string list \<Rightarrow> (string \<rightharpoonup> string)
     \<Rightarrow> nat list \<Rightarrow> ('s, 'e) Group \<Rightarrow> ('s, 'e) Group" where
  "run_goroutines sc ms ctx names params sched g =
     foldl (goroutine sc ms ctx names params) g sched"


text \<open>\<open>make([]models.MetricResult, len(names))\<close>: every slot holds the zero value.\<close>

definition new_group :: "string list \<Rightarrow> 's \<Rightarrow> ('s, 'e) Group" where
  "new_group names s =
     \<lparr>results = replicate (length names) \<lparr>ResultName = [], Value = Scalar VNil\<rparr>,
      err = None, store = s\<rparr>"

definition GetMetrics ::
  "strconv \<Rightarrow> ('s, 'e) MetricService \<Rightarrow> Context \<Rightarrow> string list \<Rightarrow> (string \<rightharpoonup> string)
     \<Rightarrow> nat list \<Rightarrow> 's \<Rightarrow> ('e ServiceError + MetricResult list) \<times> 's" where
  "GetMetrics sc ms ctx names params sched s =
     (let g = run_goroutines sc ms ctx names params sched (new_group names s) in
      case err g of
        Some e \<Rightarrow> (Inl e, store g)
      | None \<Rightarrow> (Inr (results g), store g))"


section \<open>repository: SQLiteRepository\<close>

text \<open>
  \<open>database/sql\<close> and the SQLite driver are libraries. What a query does is a
  parameter: \<open>db.QueryContext\<close> returns an error or a \<open>Rows\<close>, which is described
  by what its methods return: \<open>Columns()\<close>, then for every \<open>Next()\<close> that is
  true what \<open>Scan\<close> into \<open>*interface{}\<close> destinations delivers (the driver's
  values, SQL NULL being \<open>nil\<close>, or an error), then \<open>Err()\<close>, and \<open>Close()\<close>.
  \<open>Scan\<close> refuses a number of destinations other than the number of values.
\<close>

datatype SqlError = ErrNoRows | ErrScanCount nat nat | ErrDriver string

record Rows =
  Columns :: "SqlError + string list"
  fetched :: "(SqlError + Value list) list"
  Err :: "SqlError option"
  CloseErr :: "SqlError option"

type_synonym 's DB = "Context \<Rightarrow> string \<Rightarrow> Value list \<Rightarrow> 's \<Rightarrow> (SqlError + Rows) \<times> 's"

definition Rows_Scan :: "nat \<Rightarrow> (SqlError + Value list) \<Rightarrow> SqlError + Value list" where
  "Rows_Scan n r =
     (case r of
        Inl e \<Rightarrow> Inl e
      | Inr values \<Rightarrow>
          if length values = n then Inr values else Inl (ErrScanCount (length values) n))"

text \<open>
  \<open>db.QueryRowContext(...).Scan(&value)\<close>: the error of the query, else
  \<open>ErrNoRows\<close> (or the iteration error) when there is no first row, else the scan
  of the first row into one destination, else the error of closing the rows.
\<close>

definition Row_Scan :: "(SqlError + Rows) \<Rightarrow> SqlError + Value" where
  "Row_Scan r =
     (case r of
        Inl e \<Rightarrow> Inl e
      | Inr rows \<Rightarrow>
          (case fetched rows of
             [] \<Rightarrow> (case Err rows of Some e \<Rightarrow> Inl e | None \<Rightarrow> Inl ErrNoRows)
           | first # _ \<Rightarrow>
               (case Rows_Scan 1 first of
                  Inl e \<Rightarrow> Inl e
                | Inr values \<Rightarrow>
                    (case CloseErr rows of Some e \<Rightarrow> Inl e | None \<Rightarrow> Inr (hd values)))))"

datatype RepoError =
    NoRowsReturned
  | QueryFailed SqlError
  | GetColumnsFailed SqlError
  | ScanRowFailed SqlError
  | IteratingRowsFailed SqlError

definition SQLiteRepository_QuerySingleValue ::
  "'s DB \<Rightarrow> Context \<Rightarrow> string \<Rightarrow> Value list \<Rightarrow> 's \<Rightarrow> (RepoError + Value) \<times> 's" where
  "SQLiteRepository_QuerySingleValue db ctx query args s =
     (case db ctx query args s of
        (r, s') \<Rightarrow>
          (case Row_Scan r of
             Inl e \<Rightarrow> (if e = ErrNoRows then (Inl NoRowsReturned, s') else (Inl (QueryFailed e), s'))
           | Inr v \<Rightarrow> (Inr v, s')))"

text \<open>\<open>for i, col := range columns { row[col] = values[i] }\<close> on a fresh map.\<close>

fun fillRow :: "Row \<Rightarrow> string list \<Rightarrow> Value list \<Rightarrow> Row" where
  "fillRow row (col # columns) (v # values) = fillRow (row(col \<mapsto> v)) columns values"
| "fillRow row _ _ = row"

definition makeRow :: "string list \<Rightarrow> Value list \<Rightarrow> Row" where
  "makeRow columns values = fillRow Map.empty columns values"

text \<open>The \<open>for rows.Next()\<close> loop: a failed scan returns, a row is appended.\<close>

fun scanRows ::
  "string list \<Rightarrow> Row list \<Rightarrow> (SqlError + Value list) list \<Rightarrow> RepoError + Row list" where
  "scanRows columns rs [] = Inr rs"
| "scanRows columns rs (r # rest) =
     (case Rows_Scan (length columns) r of
        Inl e \<Rightarrow> Inl (ScanRowFailed e)
      | Inr values \<Rightarrow> scanRows columns (rs @ [makeRow columns values]) rest)"

definition SQLiteRepository_QueryMultiRow ::
  "'s DB \<Rightarrow> Context \<Rightarrow> string \<Rightarrow> Value list \<Rightarrow> 's \<Rightarrow> (RepoError + Row list) \<times> 's" where
  "SQLiteRepository_QueryMultiRow db ctx query args s =
     (case db ctx query args s of
        (Inl e, s') \<Rightarrow> (Inl (QueryFailed e), s')
      | (Inr rows, s') \<Rightarrow>
          (case Columns rows of
             Inl e \<Rightarrow> (Inl (GetColumnsFailed e), s')
           | Inr columns \<Rightarrow>
               (case scanRows columns [] (fetched rows) of
                  Inl e \<Rightarrow> (Inl e, s')
                | Inr rs \<Rightarrow>
                    (case Err rows of
                       Some e \<Rightarrow> (Inl (IteratingRowsFailed e), s')
                     | None \<Rightarrow> (Inr rs, s')))))"

definition SQLiteRepository :: "'s DB \<Rightarrow> ('s, RepoError) Repository" where
  "SQLiteRepository db =
     \<lparr>QuerySingleValue = SQLiteRepository_QuerySingleValue db,
      QueryMultiRow = SQLiteRepository_QueryMultiRow db\<rparr>"

section \<open>config: LoadConfig and validateMetrics\<close>

datatype ConfigError =
    ParseConfigFailed string
  | NoMetricsDefined
  | DuplicateMetricName string
  | InvalidMetric string ModelError

text \<open>
  The loop of \<open>validateMetrics\<close>. \<open>names\<close> is the \<open>map[string]bool\<close> of the
  names seen so far; a key that was never stored reads as \<open>false\<close>.
\<close>

fun validateMetrics_loop :: "(string \<Rightarrow> bool) \<Rightarrow> Metric list \<Rightarrow> ConfigError option" where
  "validateMetrics_loop names [] = None"
| "validateMetrics_loop names (metric # rest) =
     (if names (Name metric) then Some (DuplicateMetricName (Name metric))
      else
        (case Validate metric of
           Some e \<Rightarrow> Some (InvalidMetric (Name metric) e)
         | None \<Rightarrow> validateMetrics_loop (names(Name metric := True)) rest))"

definition validateMetrics :: "Metric list \<Rightarrow> ConfigError option" where
  "validateMetrics ms =
     (if length ms = 0 then Some NoMetricsDefined
      else validateMetrics_loop (\<lambda>_. False) ms)"

text \<open>
  \<open>toml.DecodeFile\<close> is a library call: a parameter that maps the path to a parse
  error or to the decoded \<open>Config.Metrics\<close>.
\<close>

definition LoadConfig :: "(string \<Rightarrow> string + Metric list) \<Rightarrow> string \<Rightarrow> ConfigError + Metric list" where
  "LoadConfig DecodeFile path =
     (case DecodeFile path of
        Inl e \<Rightarrow> Inl (ParseConfigFailed e)
      | Inr config_Metrics \<Rightarrow>
          (case validateMetrics config_Metrics of
             Some e \<Rightarrow> Inl e
           | None \<Rightarrow> Inr config_Metrics))"

section \<open>Instances for running the model\<close>

text \<open>
  An instance of the \<open>strconv\<close> parameter. \<open>ParseInt_10_64\<close> follows the
  documented behaviour of \<open>strconv.ParseInt(s, 10, 64)\<close>: an optional sign, then
  at least one decimal digit and nothing else, and the value must fit a signed 64-bit
  integer. \<open>ParseFloat_table\<close> knows the float literals of the table in
  \<open>TestConvertParamValue\<close> with their binary64 bit patterns, and rejects every
  other string.
\<close>

definition digit :: "char \<Rightarrow> nat option" where
  "digit c = map_of (zip ''0123456789'' [0, 1, 2, 3, 4, 5, 6, 7, 8, 9]) c"

fun ParseUint_loop :: "nat \<Rightarrow> string \<Rightarrow> NumError + nat" where
  "ParseUint_loop n [] = Inr n"
| "ParseUint_loop n (c # cs) =
     (case digit c of
        None \<Rightarrow> Inl ErrSyntax
      | Some d \<Rightarrow>
          if n * 10 + d \<ge> 2 ^ 64 then Inl ErrRange else ParseUint_loop (n * 10 + d) cs)"

definition ParseInt_10_64 :: "string \<Rightarrow> NumError + int64" where
  "ParseInt_10_64 s =
     (case s of
        [] \<Rightarrow> Inl ErrSyntax
      | c # cs \<Rightarrow>
          (let neg = (c = CHR ''-'');
               ds = (if c = CHR ''+'' \<or> c = CHR ''-'' then cs else s)
           in if ds = [] then Inl ErrSyntax
              else
                (case ParseUint_loop 0 ds of
                   Inl e \<Rightarrow> Inl e
                 | Inr un \<Rightarrow>
                     if \<not> neg \<and> un \<ge> 2 ^ 63 then Inl ErrRange
                     else if neg \<and> un > 2 ^ 63 then Inl ErrRange
                     else Inr (if neg then - word_of_nat un else word_of_nat un))))"

definition ParseFloat_table :: "string \<Rightarrow> NumError + float64" where
  "ParseFloat_table s =
     (if s = ''3.14'' then Inr 0x40091EB851EB851F
      else if s = ''0.0'' then Inr 0
      else if s = ''-2.5'' then Inr 0xC004000000000000
      else if s = ''42'' then Inr 0x4045000000000000
      else if s = ''1e10'' then Inr 0x4202A05F20000000
      else Inl ErrSyntax)"

definition test_strconv :: strconv where
  "test_strconv = \<lparr>ParseInt = ParseInt_10_64, ParseFloat = ParseFloat_table\<rparr>"

text \<open>
  The test doubles of the service tests. \<open>mockRepository\<close> returns its configured
  result or error and counts the calls (\<open>queryCalls\<close> is the state);
  \<open>testRepositoryWithFailure\<close> lets \<open>successCount\<close> calls of
  \<open>QuerySingleValue\<close> succeed with \<open>int64(100)\<close> and fails from then on (the
  state is \<open>count\<close>).
\<close>

record mockRepository =
  singleValueResult :: Value
  singleValueErr :: "string option"
  multiRowResult :: "Row list"
  multiRowErr :: "string option"

definition mockRepository_Repository :: "mockRepository \<Rightarrow> (nat, string) Repository" where
  "mockRepository_Repository m =
     \<lparr>QuerySingleValue = (\<lambda>ctx query args queryCalls.
        ((case singleValueErr m of Some e \<Rightarrow> Inl e | None \<Rightarrow> Inr (singleValueResult m)),
         queryCalls + 1)),
      QueryMultiRow = (\<lambda>ctx query args queryCalls.
        ((case multiRowErr m of Some e \<Rightarrow> Inl e | None \<Rightarrow> Inr (multiRowResult m)),
         queryCalls + 1))\<rparr>"

definition testRepositoryWithFailure :: "nat \<Rightarrow> (nat, string) Repository" where
  "testRepositoryWithFailure successCount =
     \<lparr>QuerySingleValue = (\<lambda>ctx query args count.
        (if count + 1 > successCount then Inl ''query failed'' else Inr (VInt64 100), count + 1)),
      QueryMultiRow = (\<lambda>ctx query args count. (Inr [], count))\<rparr>"

definition mock100 :: mockRepository where
  "mock100 = \<lparr>singleValueResult = VInt64 100, singleValueErr = None,
              multiRowResult = [], multiRowErr = None\<rparr>"

definition background :: Context where
  "background = \<lparr>isDone = False\<rparr>"

text \<open>Metric definitions of the service tests, and two with an optional parameter.\<close>

definition active_users :: Metric where
  "active_users = \<lparr>Name = ''active_users'', Query = ''SELECT COUNT(*) FROM users'',
                   MultiRow = False, Params = []\<rparr>"

definition signups :: Metric where
  "signups = \<lparr>Name = ''signups'', Query = ''SELECT COUNT(*) FROM signups'',
              MultiRow = False, Params = []\<rparr>"


definition users_with_limit :: Metric where
  "users_with_limit = \<lparr>Name = ''users_with_limit'', Query = ''SELECT * FROM users LIMIT ?'',
     MultiRow = True,
     Params = [\<lparr>ParamName = ''limit'', Type = ParamTypeInt, Required = True\<rparr>]\<rparr>"

definition signups_since :: Metric where
  "signups_since = \<lparr>Name = ''signups_since'',
     Query = ''SELECT COUNT(*) FROM signups WHERE date >= ?'', MultiRow = False,
     Params = [\<lparr>ParamName = ''start_date'', Type = ParamTypeString, Required = False\<rparr>]\<rparr>"

definition users_optional_limit :: Metric where
  "users_optional_limit = \<lparr>Name = ''users_optional_limit'',
     Query = ''SELECT * FROM users LIMIT ?'', MultiRow = True,
     Params = [\<lparr>ParamName = ''limit'', Type = ParamTypeInt, Required = False\<rparr>]\<rparr>"

text \<open>
  Databases with a fixed answer: no row at all, and one row of two columns that
  carry the same name, as \<open>SELECT NULL AS x, 1 AS x\<close> produces.
\<close>

definition no_rows :: Rows where
  "no_rows = \<lparr>Columns = Inr [''name''], fetched = [], Err = None, CloseErr = None\<rparr>"

definition same_name_rows :: Rows where
  "same_name_rows = \<lparr>Columns = Inr [''x'', ''x''], fetched = [Inr [VNil, VInt64 1]],
                     Err = None, CloseErr = None\<rparr>"

definition null_rows :: Rows where
  "null_rows = \<lparr>Columns = Inr [''id'', ''optional''],
     fetched = [Inr [VInt64 1, VString ''value1''], Inr [VInt64 2, VNil]],
     Err = None, CloseErr = None\<rparr>"

definition fixed_db :: "Rows \<Rightarrow> unit DB" where
  "fixed_db rows = (\<lambda>ctx query args s. (Inr rows, s))"

section \<open>Parameter conversion\<close>



section \<open>Resolving one metric\<close>

text \<open>
  Claim C1 says that a declared parameter with \<open>required = false\<close> that the input
  map lacks makes \<open>GetMetric\<close> fail, without a default value and without a call of
  the repository. The code does otherwise. For the metric \<open>signups_since\<close>, whose
  only parameter is an optional string, and the empty input map, \<open>prepareParams\<close>
  puts the empty string in the argument list, \<open>GetMetric\<close> calls the repository
  once (the call counter goes from 0 to 1) and returns its value as a success. For
  an optional integer parameter the call fails, but as a conversion error of the
  value \<open>""\<close>.
\<close>

theorem GetMetric_optional_missing_substitutes_empty:
  "prepareParams test_strconv signups_since Map.empty
     = (Inr [VString []] :: string ServiceError + Value list) \<and>
   GetMetric test_strconv (NewMetricService (mockRepository_Repository mock100) [signups_since])
       background ''signups_since'' Map.empty 0
     = (Inr [\<lparr>ResultName = ''signups_since'', Value = Scalar (VInt64 100)\<rparr>], 1) \<and>
   prepareParams test_strconv users_optional_limit Map.empty
     = (Inl (ParamConversion ''users_optional_limit'' ''limit'' (InvalidInteger [] ErrSyntax))
         :: string ServiceError + Value list)"
  by (simp add: GetMetric_def NewMetricService_def mockRepository_Repository_def mock100_def
      signups_since_def users_optional_limit_def prepareParams_def convertParamValue_def
      ParamTypeString_def ParamTypeInt_def test_strconv_def ParseInt_10_64_def)

lemma prepareParams_loop_cong:
  "\<forall>p \<in> set ps. params1 (ParamName p) = params2 (ParamName p) \<Longrightarrow>
   prepareParams_loop sc metric params1 ps = prepareParams_loop sc metric params2 ps"
  by (induction ps) (simp_all add: Let_def cong: sum.case_cong)

lemma prepareParams_cong:
  "\<forall>p \<in> set (Params metric). params1 (ParamName p) = params2 (ParamName p) \<Longrightarrow>
   prepareParams sc metric params1 = prepareParams sc metric params2"
  by (simp add: prepareParams_def prepareParams_loop_cong cong: if_cong)

text \<open>
  Claim C10. Undeclared input keys are ignored. If two input maps agree on every
  declared parameter name of the metric (the key is in both or in neither, with the
  same value), then \<open>GetMetric\<close> gives the same outcome for both: the same
  argument list, hence the same call of the repository, the same result or error and
  the same state afterwards.
\<close>

theorem GetMetric_ignores_undeclared:
  assumes "\<forall>metric. metrics (ms :: ('s, 'e) MetricService) name = Some metric \<longrightarrow>
             (\<forall>p \<in> set (Params metric). params1 (ParamName p) = params2 (ParamName p))"
  shows "GetMetric sc ms ctx name params1 s = GetMetric sc ms ctx name params2 s \<and>
         (\<forall>metric. metrics ms name = Some metric \<longrightarrow>
            (prepareParams sc metric params1 :: 'e ServiceError + Value list)
              = prepareParams sc metric params2)"
proof -
  have pp: "(prepareParams sc metric params1 :: 'e ServiceError + Value list)
              = prepareParams sc metric params2"
    if "metrics ms name = Some metric" for metric
    using assms that by (simp add: prepareParams_cong)
  show ?thesis
  proof (cases "metrics ms name")
    case None
    then show ?thesis by (simp add: GetMetric_def)
  next
    case (Some metric)
    with pp [OF Some] show ?thesis by (simp add: GetMetric_def)
  qed
qed

theorem GetMetric_ignores_undeclared_witness:
  "GetMetric test_strconv (NewMetricService (mockRepository_Repository mock100) [users_with_limit])
       background ''users_with_limit'' [''limit'' \<mapsto> ''10''] 0
     = GetMetric test_strconv (NewMetricService (mockRepository_Repository mock100) [users_with_limit])
       background ''users_with_limit'' [''limit'' \<mapsto> ''10'', ''debug'' \<mapsto> ''1''] 0 \<and>
   (prepareParams test_strconv users_with_limit [''limit'' \<mapsto> ''10'']
      :: string ServiceError + Value list) = Inr [VInt64 10] \<and>
   (prepareParams test_strconv users_with_limit [''limit'' \<mapsto> ''10'', ''debug'' \<mapsto> ''1'']
      :: string ServiceError + Value list) = Inr [VInt64 10]"
proof -
  let ?ms = "NewMetricService (mockRepository_Repository mock100) [users_with_limit]"
  have m: "metrics ?ms ''users_with_limit'' = Some users_with_limit"
    by (simp add: NewMetricService_def users_with_limit_def)
  have h: "\<forall>metric. metrics ?ms ''users_with_limit'' = Some metric \<longrightarrow>
             (\<forall>p \<in> set (Params metric).
                [''limit'' \<mapsto> ''10''] (ParamName p)
                  = [''limit'' \<mapsto> ''10'', ''debug'' \<mapsto> ''1''] (ParamName p))"
    by (simp add: m) (simp add: users_with_limit_def)
  have v: "(prepareParams test_strconv users_with_limit [''limit'' \<mapsto> ''10'']
             :: string ServiceError + Value list) = Inr [VInt64 10]"
    by (simp add: prepareParams_def users_with_limit_def convertParamValue_def ParamTypeInt_def
        ParamTypeString_def test_strconv_def ParseInt_10_64_def digit_def)
  from GetMetric_ignores_undeclared
         [where ms = "?ms" and name = "''users_with_limit''"
            and ?params1.0 = "[''limit'' \<mapsto> ''10'']"
            and ?params2.0 = "[''limit'' \<mapsto> ''10'', ''debug'' \<mapsto> ''1'']"
            and sc = test_strconv and ctx = background and s = 0, OF h] m v
  show ?thesis by simp
qed

section \<open>The repository on an empty result set\<close>

text \<open>
  Claim C6. When the query of a scalar metric runs and returns zero rows (the query
  succeeds, no row is fetched, the iteration reports no error), \<open>QuerySingleValue\<close>
  fails with the no-rows error; no value, null or other, is returned as a success.
\<close>

theorem QuerySingleValue_no_rows:
  assumes "db ctx query args s = (Inr rows, s')" and "fetched rows = []" and "Err rows = None"
  shows "SQLiteRepository_QuerySingleValue db ctx query args s = (Inl NoRowsReturned, s') \<and>
         QuerySingleValue (SQLiteRepository db) ctx query args s = (Inl NoRowsReturned, s')"
  using assms
  by (simp add: SQLiteRepository_def SQLiteRepository_QuerySingleValue_def Row_Scan_def)

theorem QuerySingleValue_no_rows_witness:
  "SQLiteRepository_QuerySingleValue (fixed_db no_rows) background
     ''SELECT name FROM test_data WHERE id = ?'' [VInt64 999] () = (Inl NoRowsReturned, ()) \<and>
   QuerySingleValue (SQLiteRepository (fixed_db no_rows)) background
     ''SELECT name FROM test_data WHERE id = ?'' [VInt64 999] () = (Inl NoRowsReturned, ())"
proof -
  have "fixed_db no_rows background ''SELECT name FROM test_data WHERE id = ?'' [VInt64 999] ()
          = (Inr no_rows, ())"
    by (simp add: fixed_db_def)
  moreover have "fetched no_rows = []" "Err no_rows = None"
    by (simp_all add: no_rows_def)
  ultimately show ?thesis
    by (rule QuerySingleValue_no_rows)
qed

text \<open>
  Claim C7. When the query of a tabular metric runs and returns zero rows (the query
  succeeds, the columns are known, no row is fetched, the iteration reports no
  error), \<open>QueryMultiRow\<close> succeeds with a row sequence of length zero.
\<close>

theorem QueryMultiRow_no_rows:
  assumes "db ctx query args s = (Inr rows, s')" and "Columns rows = Inr columns"
    and "fetched rows = []" and "Err rows = None"
  shows "SQLiteRepository_QueryMultiRow db ctx query args s = (Inr [], s') \<and>
         QueryMultiRow (SQLiteRepository db) ctx query args s = (Inr [], s')"
  using assms
  by (simp add: SQLiteRepository_def SQLiteRepository_QueryMultiRow_def)

theorem QueryMultiRow_no_rows_witness:
  "SQLiteRepository_QueryMultiRow (fixed_db no_rows) background
     ''SELECT name FROM test_data WHERE id = ?'' [VInt64 999] () = (Inr [], ()) \<and>
   QueryMultiRow (SQLiteRepository (fixed_db no_rows)) background
     ''SELECT name FROM test_data WHERE id = ?'' [VInt64 999] () = (Inr [], ())"
proof -
  have "fixed_db no_rows background ''SELECT name FROM test_data WHERE id = ?'' [VInt64 999] ()
          = (Inr no_rows, ())"
    by (simp add: fixed_db_def)
  moreover have "Columns no_rows = Inr [''name'']" "fetched no_rows = []" "Err no_rows = None"
    by (simp_all add: no_rows_def)
  ultimately show ?thesis
    by (rule QueryMultiRow_no_rows)
qed

section \<open>Rows of a tabular result\<close>

lemma fillRow_other:
  "c \<notin> set columns \<Longrightarrow> fillRow m columns vals c = m c"
  by (induction m columns vals rule: fillRow.induct) simp_all

lemma fillRow_lookup:
  "length vals = length columns \<Longrightarrow> i < length columns \<Longrightarrow>
   \<forall>k. i < k \<and> k < length columns \<longrightarrow> columns ! k \<noteq> columns ! i \<Longrightarrow>
   fillRow m columns vals (columns ! i) = Some (vals ! i)"
proof (induction m columns vals arbitrary: i rule: fillRow.induct)
  case (1 row col rest v vs)
  show ?case
  proof (cases i)
    case 0
    have "col \<notin> set rest"
    proof
      assume "col \<in> set rest"
      then obtain k where "k < length rest" "rest ! k = col"
        by (auto simp: in_set_conv_nth)
      with "1.prems"(3) 0 show False
        by (auto dest: spec [of _ "Suc k"])
    qed
    with 0 show ?thesis by (simp add: fillRow_other)
  next
    case (Suc j)
    have later: "\<forall>k. j < k \<and> k < length rest \<longrightarrow> rest ! k \<noteq> rest ! j"
    proof (intro allI impI)
      fix k assume "j < k \<and> k < length rest"
      with "1.prems"(3) Suc show "rest ! k \<noteq> rest ! j"
        by (auto dest: spec [of _ "Suc k"])
    qed
    from "1.prems" Suc have "length vs = length rest" "j < length rest" by simp_all
    then have "fillRow (row(col \<mapsto> v)) rest vs (rest ! j) = Some (vs ! j)"
      using later by (rule "1.IH")
    with Suc show ?thesis by simp
  qed
qed simp_all

lemma makeRow_lookup:
  "length vals = length columns \<Longrightarrow> i < length columns \<Longrightarrow>
   \<forall>k. i < k \<and> k < length columns \<longrightarrow> columns ! k \<noteq> columns ! i \<Longrightarrow>
   makeRow columns vals (columns ! i) = Some (vals ! i)"
  unfolding makeRow_def by (rule fillRow_lookup)

lemma scanRows_Inr:
  "scanRows columns acc fs = Inr rs \<Longrightarrow>
   \<exists>vs. fs = map Inr vs \<and> (\<forall>v \<in> set vs. length v = length columns) \<and>
        rs = acc @ map (makeRow columns) vs"
proof (induction fs arbitrary: acc)
  case Nil
  then show ?case by simp
next
  case (Cons r rest)
  from Cons.prems obtain vals where r: "r = Inr vals" and l: "length vals = length columns"
    and rec: "scanRows columns (acc @ [makeRow columns vals]) rest = Inr rs"
    by (auto simp: Rows_Scan_def split: sum.splits if_splits)
  from Cons.IH [OF rec] obtain vs where "rest = map Inr vs"
    "\<forall>v \<in> set vs. length v = length columns"
    "rs = (acc @ [makeRow columns vals]) @ map (makeRow columns) vs"
    by blast
  with r l show ?case
    by (intro exI [of _ "vals # vs"]) simp
qed

text \<open>
  Claim C8, amended. For every row that \<open>QueryMultiRow\<close> returns and every
  column whose name is not repeated by a later column of the result set, the row's
  mapping sends the column's name to exactly the value that was scanned for that
  column: \<open>nil\<close> for SQL NULL, which differs from the empty string and from
  zero, and the \<open>int64\<close>, \<open>float64\<close> or \<open>string\<close> value otherwise.
  One row is returned for every fetched row, in order.
\<close>

theorem QueryMultiRow_column_values:
  assumes "db ctx query args s = (Inr rows, s')" and "Columns rows = Inr columns"
    and "SQLiteRepository_QueryMultiRow db ctx query args s = (Inr rs, s'')"
    and "j < length rs" and "i < length columns"
    and "\<forall>k. i < k \<and> k < length columns \<longrightarrow> columns ! k \<noteq> columns ! i"
  shows "length rs = length (fetched rows) \<and>
         (\<exists>vals. fetched rows ! j = Inr vals \<and> length vals = length columns \<and>
            (rs ! j) (columns ! i) = Some (vals ! i)) \<and>
         VNil \<noteq> VString [] \<and> VNil \<noteq> VInt64 0 \<and> VNil \<noteq> VFloat64 0"
proof -
  from assms(1-3) have "scanRows columns [] (fetched rows) = Inr rs"
    by (auto simp: SQLiteRepository_QueryMultiRow_def split: sum.splits option.splits)
  from scanRows_Inr [OF this] obtain vs where f: "fetched rows = map Inr vs"
    and l: "\<forall>v \<in> set vs. length v = length columns" and rs: "rs = map (makeRow columns) vs"
    by auto
  from rs assms(4) have j: "j < length vs" by simp
  with l have lj: "length (vs ! j) = length columns" by simp
  from makeRow_lookup [OF lj assms(5) assms(6)] j rs f lj show ?thesis
    by simp
qed

theorem QueryMultiRow_column_values_witness:
  "SQLiteRepository_QueryMultiRow (fixed_db null_rows) background
       ''SELECT id, optional FROM test_data ORDER BY id'' [] ()
     = (Inr [makeRow [''id'', ''optional''] [VInt64 1, VString ''value1''],
             makeRow [''id'', ''optional''] [VInt64 2, VNil]], ()) \<and>
   makeRow [''id'', ''optional''] [VInt64 2, VNil] ''optional'' = Some VNil \<and>
   makeRow [''id'', ''optional''] [VInt64 1, VString ''value1''] ''id'' = Some (VInt64 1)"
proof -
  let ?q = "''SELECT id, optional FROM test_data ORDER BY id''"
  let ?rs = "[makeRow [''id'', ''optional''] [VInt64 1, VString ''value1''],
              makeRow [''id'', ''optional''] [VInt64 2, VNil]]"
  have db: "fixed_db null_rows background ?q [] () = (Inr null_rows, ())"
    by (simp add: fixed_db_def)
  have cols: "Columns null_rows = Inr [''id'', ''optional'']"
    by (simp add: null_rows_def)
  have run: "SQLiteRepository_QueryMultiRow (fixed_db null_rows) background ?q [] () = (Inr ?rs, ())"
    by (simp add: SQLiteRepository_QueryMultiRow_def fixed_db_def null_rows_def Rows_Scan_def)
  have f: "fetched null_rows ! 1 = Inr [VInt64 2, VNil]"
    "fetched null_rows ! 0 = Inr [VInt64 1, VString ''value1'']"
    by (simp_all add: null_rows_def)
  have "(?rs ! 1) ([''id'', ''optional''] ! 1) = Some VNil"
    using QueryMultiRow_column_values [OF db cols run, of 1 1] f by simp
  moreover have "(?rs ! 0) ([''id'', ''optional''] ! 0) = Some (VInt64 1)"
    using QueryMultiRow_column_values [OF db cols run, of 0 0] f by simp
  ultimately show ?thesis using run by simp
qed

text \<open>
  Without the condition on the column names the statement fails: the row is a map
  keyed by column name, so of two columns with the same name the later one wins. For
  the one-row result of \<open>SELECT NULL AS x, 1 AS x\<close> the returned map sends
  \<open>x\<close> to \<open>1\<close>, and the NULL of the first column is in no entry.
\<close>

theorem QueryMultiRow_same_name_counterexample:
  "Columns same_name_rows = Inr [''x'', ''x''] \<and>
   fetched same_name_rows = [Inr [VNil, VInt64 1]] \<and>
   SQLiteRepository_QueryMultiRow (fixed_db same_name_rows) background
       ''SELECT NULL AS x, 1 AS x'' [] ()
     = (Inr [[''x'' \<mapsto> VInt64 1]], ())"
  by (simp add: SQLiteRepository_QueryMultiRow_def fixed_db_def same_name_rows_def Rows_Scan_def
      makeRow_def)

section \<open>Validation of the metric list\<close>

lemma validateMetrics_loop_rejects:
  "\<not> (distinct (map Name ms) \<and> (\<forall>m \<in> set ms. \<not> names (Name m))) \<Longrightarrow>
   validateMetrics_loop names ms \<noteq> None"
proof (induction ms arbitrary: names)
  case Nil
  then show ?case by simp
next
  case (Cons metric rest)
  show ?case
  proof (cases "names (Name metric) \<or> Validate metric \<noteq> None")
    case True
    then show ?thesis by auto
  next
    case False
    with Cons.prems
    have "\<not> (distinct (map Name rest) \<and> (\<forall>m \<in> set rest. \<not> (names(Name metric := True)) (Name m)))"
      by auto
    then have "validateMetrics_loop (names(Name metric := True)) rest \<noteq> None"
      by (rule Cons.IH)
    with False show ?thesis by simp
  qed
qed

lemma validateMetrics_loop_accepts:
  "distinct (map Name ms) \<Longrightarrow> \<forall>m \<in> set ms. \<not> names (Name m) \<Longrightarrow>
   \<forall>m \<in> set ms. Validate m = None \<Longrightarrow> validateMetrics_loop names ms = None"
proof (induction ms arbitrary: names)
  case Nil
  then show ?case by simp
next
  case (Cons metric rest)
  have "validateMetrics_loop (names(Name metric := True)) rest = None"
  proof (rule Cons.IH)
    show "distinct (map Name rest)" using Cons.prems by simp
    show "\<forall>m \<in> set rest. \<not> (names(Name metric := True)) (Name m)"
      using Cons.prems by (auto simp: image_iff)
    show "\<forall>m \<in> set rest. Validate m = None" using Cons.prems by simp
  qed
  with Cons.prems show ?case by simp
qed

text \<open>
  Claim C9. \<open>validateMetrics\<close> rejects the empty list and every list in which two
  definitions have the same name, and \<open>LoadConfig\<close> then fails. For a non-empty
  list of definitions that each pass \<open>Validate\<close> (so their names are not empty)
  and have pairwise distinct names, \<open>validateMetrics\<close> accepts and
  \<open>LoadConfig\<close> returns exactly the decoded list.
\<close>

theorem validateMetrics_catalog:
  "(ms = [] \<longrightarrow> validateMetrics ms = Some NoMetricsDefined) \<and>
   (\<not> distinct (map Name ms) \<longrightarrow> validateMetrics ms \<noteq> None) \<and>
   (validateMetrics ms \<noteq> None \<and> DecodeFile path = Inr ms \<longrightarrow>
      (\<exists>e. LoadConfig DecodeFile path = Inl e)) \<and>
   (ms \<noteq> [] \<and> distinct (map Name ms) \<and> (\<forall>m \<in> set ms. Validate m = None) \<longrightarrow>
      validateMetrics ms = None \<and>
      (DecodeFile path = Inr ms \<longrightarrow> LoadConfig DecodeFile path = Inr ms))"
proof -
  have dup: "validateMetrics ms \<noteq> None" if "\<not> distinct (map Name ms)"
    using that validateMetrics_loop_rejects [of ms "\<lambda>_. False"]
    by (simp add: validateMetrics_def)
  have ok: "validateMetrics ms = None"
    if "ms \<noteq> []" "distinct (map Name ms)" "\<forall>m \<in> set ms. Validate m = None"
    using that validateMetrics_loop_accepts [of ms "\<lambda>_. False"]
    by (simp add: validateMetrics_def)
  show ?thesis
    using dup ok by (auto simp: LoadConfig_def validateMetrics_def)
qed

theorem validateMetrics_catalog_witness:
  "validateMetrics [] = Some NoMetricsDefined \<and>
   validateMetrics [active_users, signups, active_users] \<noteq> None \<and>
   (\<exists>e. LoadConfig (\<lambda>_. Inr [active_users, signups, active_users]) ''metrics.toml'' = Inl e) \<and>
   validateMetrics [active_users, users_with_limit] = None \<and>
   LoadConfig (\<lambda>_. Inr [active_users, users_with_limit]) ''metrics.toml''
     = Inr [active_users, users_with_limit]"
proof -
  have names: "Name active_users = ''active_users''" "Name signups = ''signups''"
    "Name users_with_limit = ''users_with_limit''"
    by (simp_all add: active_users_def signups_def users_with_limit_def)
  have valid: "Validate active_users = None" "Validate users_with_limit = None"
    by (simp_all add: Validate_def ParamDefinition_Validate_def IsValid_def ParamTypeInt_def
        ParamTypeString_def active_users_def users_with_limit_def)
  have d: "\<not> distinct (map Name [active_users, signups, active_users])"
    by simp
  have a: "[active_users, users_with_limit] \<noteq> [] \<and>
           distinct (map Name [active_users, users_with_limit]) \<and>
           (\<forall>m \<in> set [active_users, users_with_limit]. Validate m = None)"
    by (simp add: names valid)
  from validateMetrics_catalog [of "[]"]
    validateMetrics_catalog [of "[active_users, signups, active_users]"
      "\<lambda>_. Inr [active_users, signups, active_users]" "''metrics.toml''"] d
    validateMetrics_catalog [of "[active_users, users_with_limit]"
      "\<lambda>_. Inr [active_users, users_with_limit]" "''metrics.toml''"] a
  show ?thesis by simp
qed

section \<open>Resolving many metrics\<close>




lemma goroutine_err_kept:
  "err g = Some e \<Longrightarrow> err (goroutine sc ms ctx names params g i) = Some e"
  by (auto simp: goroutine_def split: prod.splits sum.splits)

lemma run_goroutines_err_kept:
  "err g = Some e \<Longrightarrow> err (run_goroutines sc ms ctx names params sched g) = Some e"
  unfolding run_goroutines_def
  by (induction sched arbitrary: g) (simp_all add: goroutine_err_kept)






text \<open>
  Claim C3. If the resolution of some requested name fails in the run (the call of
  goroutine \<open>i\<close>, made after the goroutines \<open>pre\<close> scheduled before it,
  returns an error), \<open>GetMetrics\<close> returns an error and no result list: the
  caller gets the complete list of claim C2 or an error, never a partial list.
\<close>

theorem GetMetrics_fail_fast:
  assumes "sched = pre @ i # post" and "i < length names"
    and "g = run_goroutines sc ms ctx names params pre (new_group names s)"
    and "fst (GetMetric sc ms (egCtx ctx g) (names ! i) params (store g)) = Inl e"
  shows "\<exists>e' s'. GetMetrics sc ms ctx names params sched s = (Inl e', s')"
proof -
  let ?g' = "goroutine sc ms ctx names params g i"
  from assms(2,4) have "err ?g' = Some (case err g of None \<Rightarrow> e | Some first \<Rightarrow> first)"
    by (cases "GetMetric sc ms (egCtx ctx g) (names ! i) params (store g)")
      (auto simp: goroutine_def split: option.splits)
  then have "err (run_goroutines sc ms ctx names params post ?g')
               = Some (case err g of None \<Rightarrow> e | Some first \<Rightarrow> first)"
    by (rule run_goroutines_err_kept)
  moreover have "run_goroutines sc ms ctx names params sched (new_group names s)
                   = run_goroutines sc ms ctx names params post ?g'"
    using assms(1,3) by (simp add: run_goroutines_def)
  ultimately show ?thesis
    by (auto simp: GetMetrics_def Let_def)
qed

text \<open>
  Claim C4. With an empty list of names \<open>GetMetrics\<close> returns the empty result
  list and no error, and the state behind the repository is unchanged, whatever the
  repository is: no query method is called.
\<close>

theorem GetMetrics_empty:
  "GetMetrics sc (ms :: ('s, 'e) MetricService) ctx [] params sched s = (Inr [], s)"
proof -
  have "run_goroutines sc ms ctx [] params sched g = g" for g :: "('s, 'e) Group"
    unfolding run_goroutines_def by (induction sched) (simp_all add: goroutine_def)
  then show ?thesis
    by (simp add: GetMetrics_def new_group_def)
qed


theorem GetMetrics_fail_fast_witness:
  "(\<exists>e' s'. GetMetrics test_strconv
       (NewMetricService (mockRepository_Repository mock100) [active_users, signups])
       background [''active_users'', ''nonexistent'', ''signups''] Map.empty [0, 1, 2] 0 = (Inl e', s')) \<and>
   GetMetrics test_strconv
       (NewMetricService (mockRepository_Repository mock100) [active_users, signups])
       background [''active_users'', ''nonexistent'', ''signups''] Map.empty [0, 1, 2] 0
     = (Inl (MetricNotFound ''nonexistent''), 2) \<and>
   (\<exists>e' s'. GetMetrics test_strconv
       (NewMetricService (testRepositoryWithFailure 1) [active_users, signups])
       background [''active_users'', ''signups''] Map.empty [1, 0] 0 = (Inl e', s')) \<and>
   GetMetrics test_strconv
       (NewMetricService (testRepositoryWithFailure 1) [active_users, signups])
       background [''active_users'', ''signups''] Map.empty [1, 0] 0
     = (Inl (MetricFailed ''active_users'' ''query failed''), 2)"
proof -
  let ?names = "[''active_users'', ''nonexistent'', ''signups'']"
  let ?ms = "NewMetricService (mockRepository_Repository mock100) [active_users, signups]"
  let ?g = "run_goroutines test_strconv ?ms background ?names Map.empty [0] (new_group ?names 0)"
  have m: "metrics ?ms ''nonexistent'' = None"
    by (simp add: NewMetricService_def active_users_def signups_def)
  have f: "fst (GetMetric test_strconv ?ms (egCtx background ?g) (?names ! 1) Map.empty (store ?g))
             = Inl (MetricNotFound ''nonexistent'')"
    by (simp add: GetMetric_def m)
  have a: "\<exists>e' s'. GetMetrics test_strconv ?ms background ?names Map.empty [0, 1, 2] 0 = (Inl e', s')"
    by (rule GetMetrics_fail_fast [where pre = "[0]" and i = 1 and post = "[2]", OF _ _ refl f])
      simp_all
  have b: "GetMetrics test_strconv ?ms background ?names Map.empty [0, 1, 2] 0
             = (Inl (MetricNotFound ''nonexistent''), 2)"
    by (simp add: GetMetrics_def run_goroutines_def goroutine_def new_group_def egCtx_def
        GetMetric_def NewMetricService_def mockRepository_Repository_def mock100_def
        active_users_def signups_def prepareParams_def background_def)
  let ?names2 = "[''active_users'', ''signups'']"
  let ?ms2 = "NewMetricService (testRepositoryWithFailure 1) [active_users, signups]"
  let ?g2 = "run_goroutines test_strconv ?ms2 background ?names2 Map.empty [1] (new_group ?names2 0)"
  have f2: "fst (GetMetric test_strconv ?ms2 (egCtx background ?g2) (?names2 ! 0) Map.empty (store ?g2))
              = Inl (MetricFailed ''active_users'' ''query failed'')"
    by (simp add: run_goroutines_def goroutine_def new_group_def egCtx_def
        GetMetric_def NewMetricService_def testRepositoryWithFailure_def
        active_users_def signups_def prepareParams_def background_def)
  have c: "\<exists>e' s'. GetMetrics test_strconv ?ms2 background ?names2 Map.empty [1, 0] 0 = (Inl e', s')"
    by (rule GetMetrics_fail_fast [where pre = "[1]" and i = 0 and post = "[]", OF _ _ refl f2])
      simp_all
  have d: "GetMetrics test_strconv ?ms2 background ?names2 Map.empty [1, 0] 0
             = (Inl (MetricFailed ''active_users'' ''query failed''), 2)"
    by (simp add: GetMetrics_def run_goroutines_def goroutine_def new_group_def egCtx_def
        GetMetric_def NewMetricService_def testRepositoryWithFailure_def
        active_users_def signups_def prepareParams_def background_def)
  from a b c d show ?thesis by simp
qed

end
